theory Spec2Isabelle
  imports Main "HOL-Library.Word" "HOL-Library.Sublist"
begin

section \<open>HeyGen MCP server: a shallow embedding of \<^verbatim>\<open>src/index.ts\<close>\<close>

text \<open>
  The server is a protocol adapter: \<^verbatim>\<open>makeRequest\<close> wraps one outbound HTTP call,
  \<^verbatim>\<open>tools\<close> is the static catalog, and the \<^verbatim>\<open>CallToolRequestSchema\<close> handler switches
  on the tool name, builds the request, and wraps the result or the caught error.

  Conventions of the embedding.
  \<^item> A JavaScript string is the list of the bytes of its UTF-8 encoding (\<^typ>\<open>string\<close>).
  \<^item> A JavaScript number is an integer (\<^typ>\<open>int\<close>) below \<open>10\<^sup>2\<^sup>1\<close> in magnitude, whose
    \<^verbatim>\<open>toString()\<close> is its decimal numeral; fractions, \<^verbatim>\<open>NaN\<close> and exponent notation are
    outside the model.
  \<^item> The values of the argument bag are the JSON primitives; a property that is absent
    reads as \<^verbatim>\<open>undefined\<close>. Arrays and objects as argument values are outside the model
    (no tool declares such a parameter).
  \<^item> A thrown exception is a value: a computation that may throw returns
    \<open>thrown + 'a\<close>, with \<open>Inl\<close> the exception.
  \<^item> The file system and the remote service are parameters (\<open>world\<close>); the calls made to
    \<^verbatim>\<open>fetch\<close> are returned as a list, in order.
\<close>

subsection \<open>Values\<close>

datatype val = Undefined | Null | Bool bool | Num int | Str string

datatype json =
    JNull
  | JBool bool
  | JNum int
  | JStr string
  | JArr "json list"
  | JObj "(string \<times> json) list"

type_synonym byte = "8 word"

text \<open>What is thrown: an \<^verbatim>\<open>Error\<close> instance with its \<^verbatim>\<open>message\<close>, or any other value.\<close>

datatype thrown = ErrorObject string | NonError val

text \<open>The \<^verbatim>\<open>body?: any\<close> of \<^verbatim>\<open>makeRequest\<close>: absent, or one of the three kinds its comment
  names (``Buffer (binary), string, or object (JSON)''). An object is the list of its
  properties in insertion order.\<close>

datatype body =
    BUndefined
  | BString string
  | BBuffer "byte list"
  | BObject "(string \<times> val) list"

subsection \<open>JavaScript conversions\<close>

text \<open>Truthiness (\<^verbatim>\<open>if (x)\<close>, \<^verbatim>\<open>!x\<close>).\<close>

fun truthy :: "val \<Rightarrow> bool" where
  "truthy Undefined = False"
| "truthy Null = False"
| "truthy (Bool b) = b"
| "truthy (Num n) = (n \<noteq> 0)"
| "truthy (Str s) = (s \<noteq> [])"

text \<open>An empty string is falsy; a Buffer and an object are always truthy.\<close>

fun truthy_body :: "body \<Rightarrow> bool" where
  "truthy_body BUndefined = False"
| "truthy_body (BString s) = (s \<noteq> [])"
| "truthy_body (BBuffer bs) = True"
| "truthy_body (BObject ps) = True"

definition digit_char :: "nat \<Rightarrow> char" where
  "digit_char d = char_of (48 + d)"

fun show_nat :: "nat \<Rightarrow> string" where
  "show_nat n = (if n < 10 then [digit_char n] else show_nat (n div 10) @ [digit_char (n mod 10)])"

declare show_nat.simps [simp del]

definition show_int :: "int \<Rightarrow> string" where
  "show_int i = (if i < 0 then CHR ''-'' # show_nat (nat (- i)) else show_nat (nat i))"

text \<open>\<^verbatim>\<open>String(v)\<close>, which is also what a template literal \<^verbatim>\<open>`${v}`\<close> inserts.\<close>

fun js_String :: "val \<Rightarrow> string" where
  "js_String Undefined = ''undefined''"
| "js_String Null = ''null''"
| "js_String (Bool b) = (if b then ''true'' else ''false'')"
| "js_String (Num n) = show_int n"
| "js_String (Str s) = s"

text \<open>The method call \<^verbatim>\<open>v.toString()\<close>: a \<^verbatim>\<open>TypeError\<close> on \<^verbatim>\<open>undefined\<close> and \<^verbatim>\<open>null\<close>.\<close>

fun toString :: "val \<Rightarrow> thrown + string" where
  "toString Undefined =
     Inl (ErrorObject ''Cannot read properties of undefined (reading 'toString')'')"
| "toString Null =
     Inl (ErrorObject ''Cannot read properties of null (reading 'toString')'')"
| "toString v = Inr (js_String v)"

subsection \<open>\<^verbatim>\<open>JSON.stringify\<close>\<close>

definition hex_lower :: "nat \<Rightarrow> char" where
  "hex_lower d = (if d < 10 then char_of (48 + d) else char_of (87 + d))"

definition hex_upper :: "nat \<Rightarrow> char" where
  "hex_upper d = (if d < 10 then char_of (48 + d) else char_of (55 + d))"

text \<open>\<^verbatim>\<open>QuoteJSONString\<close>: the quote, the backslash and the control characters are
  escaped, every other byte is copied.\<close>

definition json_escape :: "char \<Rightarrow> string" where
  "json_escape c =
     (let n = (of_char c :: nat) in
      if n = 34 then [CHR 0x5C, CHR 0x22]
      else if n = 92 then [CHR 0x5C, CHR 0x5C]
      else if n = 8 then [CHR 0x5C, CHR ''b'']
      else if n = 9 then [CHR 0x5C, CHR ''t'']
      else if n = 10 then [CHR 0x5C, CHR ''n'']
      else if n = 12 then [CHR 0x5C, CHR ''f'']
      else if n = 13 then [CHR 0x5C, CHR ''r'']
      else if n < 32 then [CHR 0x5C, CHR ''u'', CHR ''0'', CHR ''0'', hex_lower (n div 16), hex_lower (n mod 16)]
      else [c])"

definition json_quote :: "string \<Rightarrow> string" where
  "json_quote s = [CHR 0x22] @ concat (map json_escape s) @ [CHR 0x22]"

fun join :: "'a list \<Rightarrow> 'a list list \<Rightarrow> 'a list" where
  "join sep [] = []"
| "join sep [x] = x"
| "join sep (x # y # ys) = x @ sep @ join sep (y # ys)"

text \<open>\<^verbatim>\<open>JSON.stringify(value)\<close> on parsed JSON, without indentation.\<close>

fun JSON_stringify :: "json \<Rightarrow> string" where
  "JSON_stringify JNull = ''null''"
| "JSON_stringify (JBool b) = (if b then ''true'' else ''false'')"
| "JSON_stringify (JNum n) = show_int n"
| "JSON_stringify (JStr s) = json_quote s"
| "JSON_stringify (JArr xs) = ''['' @ join '','' (map JSON_stringify xs) @ '']''"
| "JSON_stringify (JObj ps) =
     ''{'' @ join '','' (map (\<lambda>(k, v). json_quote k @ '':'' @ JSON_stringify v) ps) @ ''}''"

text \<open>\<^verbatim>\<open>JSON.stringify(value, null, 2)\<close>: \<open>ind\<close> is the current indentation.\<close>

fun stringify_indent :: "string \<Rightarrow> json \<Rightarrow> string" where
  "stringify_indent ind JNull = ''null''"
| "stringify_indent ind (JBool b) = (if b then ''true'' else ''false'')"
| "stringify_indent ind (JNum n) = show_int n"
| "stringify_indent ind (JStr s) = json_quote s"
| "stringify_indent ind (JArr xs) =
     (if xs = [] then ''[]''
      else ''['' @ [CHR 0x0A] @ (ind @ ''  '') @
           join ('','' @ [CHR 0x0A] @ (ind @ ''  '')) (map (stringify_indent (ind @ ''  '')) xs) @
           [CHR 0x0A] @ ind @ '']'')"
| "stringify_indent ind (JObj ps) =
     (if ps = [] then ''{}''
      else ''{'' @ [CHR 0x0A] @ (ind @ ''  '') @
           join ('','' @ [CHR 0x0A] @ (ind @ ''  ''))
             (map (\<lambda>(k, v). json_quote k @ '': '' @ stringify_indent (ind @ ''  '') v) ps) @
           [CHR 0x0A] @ ind @ ''}'')"

definition JSON_stringify_2 :: "json \<Rightarrow> string" where
  "JSON_stringify_2 v = stringify_indent [] v"

text \<open>\<^verbatim>\<open>JSON.stringify\<close> of an object literal whose property values are primitives: a
  property whose value is \<^verbatim>\<open>undefined\<close> is left out.\<close>

fun stringify_val :: "val \<Rightarrow> string option" where
  "stringify_val Undefined = None"
| "stringify_val Null = Some ''null''"
| "stringify_val (Bool b) = Some (if b then ''true'' else ''false'')"
| "stringify_val (Num n) = Some (show_int n)"
| "stringify_val (Str s) = Some (json_quote s)"

definition stringify_member :: "string \<times> val \<Rightarrow> string list" where
  "stringify_member p =
     (case stringify_val (snd p) of None \<Rightarrow> [] | Some s \<Rightarrow> [json_quote (fst p) @ '':'' @ s])"

definition stringify_object :: "(string \<times> val) list \<Rightarrow> string" where
  "stringify_object ps = ''{'' @ join '','' (concat (map stringify_member ps)) @ ''}''"

subsection \<open>\<^verbatim>\<open>URLSearchParams\<close>\<close>

text \<open>The serializer of \<^verbatim>\<open>URLSearchParams.toString()\<close> (application/x-www-form-urlencoded):
  ASCII letters and digits and \<^verbatim>\<open>* - . _\<close> are copied, a space becomes \<^verbatim>\<open>+\<close>, every other
  byte becomes \<^verbatim>\<open>%XX\<close> with upper-case hexadecimal digits; pairs are written
  \<^verbatim>\<open>name=value\<close> and joined by \<^verbatim>\<open>&\<close>.\<close>

definition unreserved :: "char \<Rightarrow> bool" where
  "unreserved c =
     (let n = (of_char c :: nat) in
      (48 \<le> n \<and> n \<le> 57) \<or> (65 \<le> n \<and> n \<le> 90) \<or> (97 \<le> n \<and> n \<le> 122) \<or>
      n = 42 \<or> n = 45 \<or> n = 46 \<or> n = 95)"

definition urlencode_byte :: "char \<Rightarrow> string" where
  "urlencode_byte c =
     (if unreserved c then [c]
      else if c = CHR '' '' then ''+''
      else [CHR ''%'', hex_upper ((of_char c :: nat) div 16), hex_upper ((of_char c :: nat) mod 16)])"

definition urlencode :: "string \<Rightarrow> string" where
  "urlencode s = concat (map urlencode_byte s)"

definition urlencode_pair :: "string \<times> string \<Rightarrow> string" where
  "urlencode_pair p = urlencode (fst p) @ ''='' @ urlencode (snd p)"

definition URLSearchParams_toString :: "(string \<times> string) list \<Rightarrow> string" where
  "URLSearchParams_toString ps = join ''&'' (map urlencode_pair ps)"

text \<open>The inverse of \<open>urlencode\<close>, as the receiver of a query string computes it. It is
  not part of the server; it serves to state that the encoding loses nothing.\<close>

definition hex_value :: "char \<Rightarrow> nat" where
  "hex_value c =
     (let n = (of_char c :: nat) in
      if 48 \<le> n \<and> n \<le> 57 then n - 48
      else if 65 \<le> n \<and> n \<le> 70 then n - 55
      else if 97 \<le> n \<and> n \<le> 102 then n - 87
      else 0)"

fun urldecode :: "string \<Rightarrow> string" where
  "urldecode [] = []"
| "urldecode (c # cs) =
     (if c = CHR ''+'' then CHR '' '' # urldecode cs
      else if c = CHR ''%'' then
        (case cs of
           h # l # rest \<Rightarrow> char_of (hex_value h * 16 + hex_value l) # urldecode rest
         | _ \<Rightarrow> c # urldecode cs)
      else c # urldecode cs)"

subsection \<open>The transport adapter \<^verbatim>\<open>makeRequest\<close>\<close>

definition UPLOAD_BASE_URL :: string where
  "UPLOAD_BASE_URL = ''https://upload.heygen.com/v1''"

definition API_BASE_URL :: string where
  "API_BASE_URL = ''https://api.heygen.com/v1''"

text \<open>What \<^verbatim>\<open>options.body\<close> holds: the Buffer itself or a string.\<close>

datatype wire = WBuffer "byte list" | WString string

text \<open>One call \<^verbatim>\<open>fetch(url, options)\<close>: \<open>http_method\<close> is \<^verbatim>\<open>options.method\<close>, and
  \<open>body = None\<close> when \<^verbatim>\<open>options.body\<close> is not set.\<close>

record request =
  url :: string
  http_method :: string
  headers :: "string \<rightharpoonup> val"
  body :: "wire option"

text \<open>What \<^verbatim>\<open>fetch\<close> does: it rejects, or it resolves to a response with a status and
  with what \<^verbatim>\<open>response.json()\<close> gives, the parsed body or a rejection.\<close>

datatype fetch_result = Rejected thrown | Response nat "thrown + json"

record world =
  readFileSync :: "val \<Rightarrow> thrown + byte list"
  fetch :: "request \<Rightarrow> fetch_result"

text \<open>\<^verbatim>\<open>response.ok\<close>.\<close>

definition response_ok :: "nat \<Rightarrow> bool" where
  "response_ok status = (200 \<le> status \<and> status < 300)"

text \<open>\<^verbatim>\<open>typeof body === "object"\<close> and \<^verbatim>\<open>Buffer.isBuffer(body)\<close>.\<close>

fun typeof_object :: "body \<Rightarrow> bool" where
  "typeof_object BUndefined = False"
| "typeof_object (BString s) = False"
| "typeof_object (BBuffer bs) = True"
| "typeof_object (BObject ps) = True"

fun isBuffer :: "body \<Rightarrow> bool" where
  "isBuffer (BBuffer bs) = True"
| "isBuffer b = False"

definition request_headers :: "string \<Rightarrow> body \<Rightarrow> val \<Rightarrow> (string \<rightharpoonup> val)" where
  "request_headers API_KEY b contentType =
     (let hs = [''X-Api-Key'' \<mapsto> Str API_KEY] in
      if truthy contentType then hs(''Content-Type'' \<mapsto> contentType)
      else if truthy_body b \<and> typeof_object b \<and> \<not> isBuffer b
        then hs(''Content-Type'' \<mapsto> Str ''application/json'')
      else hs)"

definition request_body :: "body \<Rightarrow> wire option" where
  "request_body b =
     (if truthy_body b then
        (case b of
           BBuffer bs \<Rightarrow> Some (WBuffer bs)
         | BString s \<Rightarrow> Some (WString s)
         | BObject ps \<Rightarrow> Some (WString (stringify_object ps))
         | BUndefined \<Rightarrow> None)
      else None)"

definition request_options :: "string \<Rightarrow> string \<Rightarrow> string \<Rightarrow> body \<Rightarrow> val \<Rightarrow> request" where
  "request_options API_KEY u m b contentType =
     \<lparr>url = u, http_method = m, headers = request_headers API_KEY b contentType, body = request_body b\<rparr>"

text \<open>\<^verbatim>\<open>const data = await response.json(); if (!response.ok) throw ...; return data\<close>:
  \<^verbatim>\<open>response.json()\<close> is awaited before \<^verbatim>\<open>response.ok\<close> is looked at.\<close>

definition await_response :: "fetch_result \<Rightarrow> thrown + json" where
  "await_response r =
     (case r of
        Rejected e \<Rightarrow> Inl e
      | Response status parsed \<Rightarrow>
          (case parsed of
             Inl e \<Rightarrow> Inl e
           | Inr data \<Rightarrow>
               if \<not> response_ok status
               then Inl (ErrorObject (''API request failed: '' @ show_nat status @ '' - '' @
                                      JSON_stringify data))
               else Inr data))"

text \<open>The result is the call made to \<^verbatim>\<open>fetch\<close> and what \<^verbatim>\<open>makeRequest\<close> returns or throws.\<close>

definition makeRequest ::
  "string \<Rightarrow> world \<Rightarrow> string \<Rightarrow> string \<Rightarrow> body \<Rightarrow> val \<Rightarrow> request \<times> (thrown + json)" where
  "makeRequest API_KEY w u m b contentType =
     (let options = request_options API_KEY u m b contentType in
      (options, await_response (fetch w options)))"

subsection \<open>The tool registry\<close>

text \<open>A property of an input schema: its type, its description and the constraints the
  catalog declares (\<^verbatim>\<open>enum\<close>, \<^verbatim>\<open>minimum\<close>, \<^verbatim>\<open>maximum\<close>, \<^verbatim>\<open>default\<close>).\<close>

record property_schema =
  ptype :: string
  pdescription :: string
  enum :: "string list option"
  minimum :: "int option"
  maximum :: "int option"
  default_value :: "string option"

text \<open>A tool descriptor; \<^verbatim>\<open>inputSchema\<close> is an object schema, given by its \<open>properties\<close>
  and the \<open>required\<close> names.\<close>

record tool =
  name :: string
  description :: string
  properties :: "(string \<times> property_schema) list"
  required :: "string list"




subsection \<open>The dispatcher\<close>

text \<open>A response envelope: \<^verbatim>\<open>{content: [{type: "text", text}], isError?}\<close>;
  \<open>isError = None\<close> when the field is not set.\<close>

datatype content_item = TextItem string

record tool_response =
  content :: "content_item list"
  isError :: "bool option"

text \<open>The argument bag \<^verbatim>\<open>request.params.arguments\<close>: \<open>None\<close> when the request carries no
  \<^verbatim>\<open>arguments\<close> field, else an object from property names to values.\<close>

type_synonym arguments = "(string \<rightharpoonup> val) option"

text \<open>Reading a property in a destructuring pattern.\<close>

definition property :: "(string \<rightharpoonup> val) \<Rightarrow> string \<Rightarrow> val" where
  "property obj k = (case obj k of None \<Rightarrow> Undefined | Some v \<Rightarrow> v)"

text \<open>Destructuring \<^verbatim>\<open>undefined\<close> throws a \<^verbatim>\<open>TypeError\<close> that names the first property
  of the pattern.\<close>

definition destructure_error :: "string \<Rightarrow> thrown" where
  "destructure_error k =
     ErrorObject (''Cannot destructure property '' @ [CHR 0x27] @ k @ [CHR 0x27] @
                  '' of 'args' as it is undefined.'')"

definition text_result :: "json \<Rightarrow> tool_response" where
  "text_result result = \<lparr>content = [TextItem (JSON_stringify_2 result)], isError = None\<rparr>"

text \<open>\<^verbatim>\<open>const result = await makeRequest(...); return {content: [...]}\<close>: the request
  made, and the envelope or what the await threw.\<close>

definition request_then_return ::
  "request \<times> (thrown + json) \<Rightarrow> request list \<times> (thrown + tool_response)" where
  "request_then_return r =
     ([fst r], case snd r of Inl e \<Rightarrow> Inl e | Inr result \<Rightarrow> Inr (text_result result))"

definition case_upload_asset ::
  "string \<Rightarrow> world \<Rightarrow> arguments \<Rightarrow> request list \<times> (thrown + tool_response)" where
  "case_upload_asset API_KEY w args =
     (case args of
        None \<Rightarrow> ([], Inl (destructure_error ''file_path''))
      | Some obj \<Rightarrow>
          (let file_path = property obj ''file_path''; mime_type = property obj ''mime_type'' in
           case readFileSync w file_path of
             Inl e \<Rightarrow> ([], Inl e)
           | Inr fileBuffer \<Rightarrow>
               request_then_return
                 (makeRequest API_KEY w (UPLOAD_BASE_URL @ ''/asset'') ''POST''
                    (BBuffer fileBuffer) mime_type)))"

text \<open>The \<^verbatim>\<open>queryParams\<close> of \<^verbatim>\<open>list_assets\<close>, in the order of the \<^verbatim>\<open>append\<close> calls;
  \<^verbatim>\<open>append\<close> converts its value with \<^verbatim>\<open>String\<close>, and \<^verbatim>\<open>limit.toString()\<close> may throw.\<close>

definition list_assets_params :: "(string \<rightharpoonup> val) \<Rightarrow> thrown + (string \<times> string) list" where
  "list_assets_params obj =
     (let folder_id = property obj ''folder_id''; file_type = property obj ''file_type'';
          limit = property obj ''limit''; token = property obj ''token'';
          q1 = (if truthy folder_id then [(''folder_id'', js_String folder_id)] else []);
          q2 = q1 @ (if truthy file_type then [(''file_type'', js_String file_type)] else [])
      in case (if limit \<noteq> Undefined
               then (case toString limit of Inl e \<Rightarrow> Inl e | Inr s \<Rightarrow> Inr (q2 @ [(''limit'', s)]))
               else Inr q2) of
           Inl e \<Rightarrow> Inl e
         | Inr q3 \<Rightarrow> Inr (q3 @ (if truthy token then [(''token'', js_String token)] else [])))"

text \<open>\<^verbatim>\<open>queryString ? `${base}?${queryString}` : base\<close>.\<close>

definition with_query :: "string \<Rightarrow> (string \<times> string) list \<Rightarrow> string" where
  "with_query base queryParams =
     (let queryString = URLSearchParams_toString queryParams in
      if queryString \<noteq> [] then base @ ''?'' @ queryString else base)"

definition case_list_assets ::
  "string \<Rightarrow> world \<Rightarrow> arguments \<Rightarrow> request list \<times> (thrown + tool_response)" where
  "case_list_assets API_KEY w args =
     (case args of
        None \<Rightarrow> ([], Inl (destructure_error ''folder_id''))
      | Some obj \<Rightarrow>
          (case list_assets_params obj of
             Inl e \<Rightarrow> ([], Inl e)
           | Inr queryParams \<Rightarrow>
               request_then_return
                 (makeRequest API_KEY w (with_query (API_BASE_URL @ ''/asset/list'') queryParams)
                    ''GET'' BUndefined Undefined)))"

definition case_delete_asset ::
  "string \<Rightarrow> world \<Rightarrow> arguments \<Rightarrow> request list \<times> (thrown + tool_response)" where
  "case_delete_asset API_KEY w args =
     (case args of
        None \<Rightarrow> ([], Inl (destructure_error ''asset_id''))
      | Some obj \<Rightarrow>
          (let asset_id = property obj ''asset_id'' in
           request_then_return
             (makeRequest API_KEY w (API_BASE_URL @ ''/asset/'' @ js_String asset_id @ ''/delete'')
                ''POST'' BUndefined Undefined)))"

definition list_folders_params :: "(string \<rightharpoonup> val) \<Rightarrow> thrown + (string \<times> string) list" where
  "list_folders_params obj =
     (let limit = property obj ''limit''; parent_id = property obj ''parent_id'';
          name_filter = property obj ''name_filter''; is_trash = property obj ''is_trash'';
          token = property obj ''token''
      in case (if limit \<noteq> Undefined
               then (case toString limit of Inl e \<Rightarrow> Inl e | Inr s \<Rightarrow> Inr [(''limit'', s)])
               else Inr []) of
           Inl e \<Rightarrow> Inl e
         | Inr q1 \<Rightarrow>
            (let q2 = q1 @ (if truthy parent_id then [(''parent_id'', js_String parent_id)] else []);
                 q3 = q2 @ (if truthy name_filter then [(''name_filter'', js_String name_filter)] else [])
             in case (if is_trash \<noteq> Undefined
                      then (case toString is_trash of
                              Inl e \<Rightarrow> Inl e
                            | Inr s \<Rightarrow> Inr (q3 @ [(''is_trash'', s)]))
                      else Inr q3) of
                  Inl e \<Rightarrow> Inl e
                | Inr q4 \<Rightarrow> Inr (q4 @ (if truthy token then [(''token'', js_String token)] else []))))"

definition case_list_folders ::
  "string \<Rightarrow> world \<Rightarrow> arguments \<Rightarrow> request list \<times> (thrown + tool_response)" where
  "case_list_folders API_KEY w args =
     (case args of
        None \<Rightarrow> ([], Inl (destructure_error ''limit''))
      | Some obj \<Rightarrow>
          (case list_folders_params obj of
             Inl e \<Rightarrow> ([], Inl e)
           | Inr queryParams \<Rightarrow>
               request_then_return
                 (makeRequest API_KEY w (with_query (API_BASE_URL @ ''/folders'') queryParams)
                    ''GET'' BUndefined Undefined)))"

text \<open>The body of \<^verbatim>\<open>create_folder\<close>: the default \<^verbatim>\<open>"mixed"\<close> replaces \<^verbatim>\<open>undefined\<close> only.\<close>

definition create_folder_body :: "(string \<rightharpoonup> val) \<Rightarrow> (string \<times> val) list" where
  "create_folder_body obj =
     (let name = property obj ''name'';
          project_type = (if property obj ''project_type'' = Undefined then Str ''mixed''
                          else property obj ''project_type'');
          parent_id = property obj ''parent_id''
      in [(''project_type'', project_type)] @
         (if truthy name then [(''name'', name)] else []) @
         (if truthy parent_id then [(''parent_id'', parent_id)] else []))"

definition case_create_folder ::
  "string \<Rightarrow> world \<Rightarrow> arguments \<Rightarrow> request list \<times> (thrown + tool_response)" where
  "case_create_folder API_KEY w args =
     (case args of
        None \<Rightarrow> ([], Inl (destructure_error ''name''))
      | Some obj \<Rightarrow>
          request_then_return
            (makeRequest API_KEY w (API_BASE_URL @ ''/folders/create'') ''POST''
               (BObject (create_folder_body obj)) Undefined))"

definition case_update_folder ::
  "string \<Rightarrow> world \<Rightarrow> arguments \<Rightarrow> request list \<times> (thrown + tool_response)" where
  "case_update_folder API_KEY w args =
     (case args of
        None \<Rightarrow> ([], Inl (destructure_error ''folder_id''))
      | Some obj \<Rightarrow>
          (let folder_id = property obj ''folder_id''; name = property obj ''name'' in
           request_then_return
             (makeRequest API_KEY w (API_BASE_URL @ ''/folders/'' @ js_String folder_id) ''POST''
                (BObject [(''name'', name)]) (Str ''application/json''))))"

definition case_trash_folder ::
  "string \<Rightarrow> world \<Rightarrow> arguments \<Rightarrow> request list \<times> (thrown + tool_response)" where
  "case_trash_folder API_KEY w args =
     (case args of
        None \<Rightarrow> ([], Inl (destructure_error ''folder_id''))
      | Some obj \<Rightarrow>
          (let folder_id = property obj ''folder_id'' in
           request_then_return
             (makeRequest API_KEY w (API_BASE_URL @ ''/folders/'' @ js_String folder_id @ ''/trash'')
                ''POST'' BUndefined Undefined)))"

definition case_restore_folder ::
  "string \<Rightarrow> world \<Rightarrow> arguments \<Rightarrow> request list \<times> (thrown + tool_response)" where
  "case_restore_folder API_KEY w args =
     (case args of
        None \<Rightarrow> ([], Inl (destructure_error ''folder_id''))
      | Some obj \<Rightarrow>
          (let folder_id = property obj ''folder_id'' in
           request_then_return
             (makeRequest API_KEY w (API_BASE_URL @ ''/folders/'' @ js_String folder_id @ ''/restore'')
                ''POST'' BUndefined Undefined)))"

text \<open>The \<^verbatim>\<open>switch (name)\<close>: which \<^verbatim>\<open>case\<close> label a name matches, \<open>None\<close> for \<^verbatim>\<open>default\<close>.\<close>

datatype case_label =
    upload_asset | list_assets | delete_asset | list_folders
  | create_folder | update_folder | trash_folder | restore_folder

definition switch_label :: "string \<Rightarrow> case_label option" where
  "switch_label n =
     (if n = ''upload_asset'' then Some upload_asset
      else if n = ''list_assets'' then Some list_assets
      else if n = ''delete_asset'' then Some delete_asset
      else if n = ''list_folders'' then Some list_folders
      else if n = ''create_folder'' then Some create_folder
      else if n = ''update_folder'' then Some update_folder
      else if n = ''trash_folder'' then Some trash_folder
      else if n = ''restore_folder'' then Some restore_folder
      else None)"

fun run_case ::
  "case_label \<Rightarrow> string \<Rightarrow> world \<Rightarrow> arguments \<Rightarrow> request list \<times> (thrown + tool_response)" where
  "run_case upload_asset = case_upload_asset"
| "run_case list_assets = case_list_assets"
| "run_case delete_asset = case_delete_asset"
| "run_case list_folders = case_list_folders"
| "run_case create_folder = case_create_folder"
| "run_case update_folder = case_update_folder"
| "run_case trash_folder = case_trash_folder"
| "run_case restore_folder = case_restore_folder"

text \<open>The body of the \<^verbatim>\<open>try\<close> block.\<close>

definition try_block ::
  "string \<Rightarrow> world \<Rightarrow> string \<Rightarrow> arguments \<Rightarrow> request list \<times> (thrown + tool_response)" where
  "try_block API_KEY w n args =
     (case switch_label n of
        Some l \<Rightarrow> run_case l API_KEY w args
      | None \<Rightarrow> ([], Inr \<lparr>content = [TextItem (''Unknown tool: '' @ n)], isError = Some True\<rparr>))"

text \<open>The \<^verbatim>\<open>catch (error)\<close> block, with
  \<^verbatim>\<open>error instanceof Error ? error.message : String(error)\<close>.\<close>

definition error_text :: "thrown \<Rightarrow> string" where
  "error_text error = (case error of ErrorObject message \<Rightarrow> message | NonError v \<Rightarrow> js_String v)"

definition catch_block :: "thrown \<Rightarrow> tool_response" where
  "catch_block error =
     \<lparr>content = [TextItem (''Error: '' @ error_text error)], isError = Some True\<rparr>"

text \<open>The \<^verbatim>\<open>CallToolRequestSchema\<close> handler: the calls made to \<^verbatim>\<open>fetch\<close>, and what the
  handler returns (\<open>Inr\<close>) or lets escape (\<open>Inl\<close>).\<close>

definition CallTool_handler ::
  "string \<Rightarrow> world \<Rightarrow> string \<Rightarrow> arguments \<Rightarrow> request list \<times> (thrown + tool_response)" where
  "CallTool_handler API_KEY w n args =
     (case try_block API_KEY w n args of
        (sent, Inl error) \<Rightarrow> (sent, Inr (catch_block error))
      | (sent, Inr response) \<Rightarrow> (sent, Inr response))"

subsection \<open>Start-up and the life of the process\<close>

text \<open>One call of \<^verbatim>\<open>console.error\<close> is the list of its arguments.\<close>

datatype log_arg = LStr string | LErr thrown

text \<open>The process after start-up: exited with a status, or serving with the captured
  \<^verbatim>\<open>API_KEY\<close>; both with what was written to the diagnostic stream.\<close>

datatype process = Exited "log_arg list list" nat | Serving "log_arg list list" string

text \<open>The module body: the \<^verbatim>\<open>API_KEY\<close> guard, then \<^verbatim>\<open>main()\<close>, whose
  \<^verbatim>\<open>server.connect\<close> may reject (\<open>connect = Some e\<close>).\<close>

definition env_value :: "string option \<Rightarrow> val" where
  "env_value e = (case e of None \<Rightarrow> Undefined | Some s \<Rightarrow> Str s)"

definition start :: "string option \<Rightarrow> thrown option \<Rightarrow> process" where
  "start HEYGEN_API_KEY connect =
     (if \<not> truthy (env_value HEYGEN_API_KEY)
      then Exited [[LStr ''Error: HEYGEN_API_KEY environment variable is required'']] 1
      else (case connect of
              Some error \<Rightarrow> Exited [[LStr ''Fatal error in main():'', LErr error]] 1
            | None \<Rightarrow> Serving [[LStr ''HeyGen MCP Server running on stdio'']]
                        (js_String (env_value HEYGEN_API_KEY))))"

text \<open>Serving a sequence of invocations, one after the other.\<close>

fun serve ::
  "string \<Rightarrow> world \<Rightarrow> (string \<times> arguments) list \<Rightarrow> request list \<times> (thrown + tool_response) list" where
  "serve API_KEY w [] = ([], [])"
| "serve API_KEY w (c # cs) =
     (let r = CallTool_handler API_KEY w (fst c) (snd c); rest = serve API_KEY w cs
      in (fst r @ fst rest, snd r # snd rest))"

text \<open>The whole run: no invocation is handled by a process that has exited.\<close>

definition run ::
  "string option \<Rightarrow> thrown option \<Rightarrow> world \<Rightarrow> (string \<times> arguments) list \<Rightarrow>
   process \<times> request list \<times> (thrown + tool_response) list" where
  "run HEYGEN_API_KEY connect w calls =
     (case start HEYGEN_API_KEY connect of
        Exited log status \<Rightarrow> (Exited log status, [], [])
      | Serving log API_KEY \<Rightarrow> (Serving log API_KEY, serve API_KEY w calls))"

subsection \<open>Example worlds\<close>

text \<open>A world with one file, \<^verbatim>\<open>a.png\<close>, in which every call of \<^verbatim>\<open>fetch\<close> has the outcome
  \<open>reply\<close>.\<close>

definition example_world :: "fetch_result \<Rightarrow> world" where
  "example_world reply =
     \<lparr>readFileSync =
        (\<lambda>p. if p = Str ''a.png'' then Inr [137, 80, 78, 71]
             else Inl (ErrorObject ''ENOENT: no such file or directory'')),
      fetch = (\<lambda>r. reply)\<rparr>"

definition not_found :: fetch_result where
  "not_found = Response 404 (Inr (JObj [(''error'', JStr ''not found'')]))"

definition bad_gateway :: fetch_result where
  "bad_gateway = Response 502 (Inl (ErrorObject ''invalid json response body''))"

text \<open>An argument bag for the two list tools: an identifier with a space, a filter with an
  ampersand, the limit 0, \<^verbatim>\<open>is_trash\<close> false and an empty token.\<close>

definition example_arguments :: "string \<rightharpoonup> val" where
  "example_arguments =
     [''folder_id'' \<mapsto> Str ''f 1'', ''name_filter'' \<mapsto> Str ''a&b'', ''limit'' \<mapsto> Num 0,
      ''is_trash'' \<mapsto> Bool False, ''token'' \<mapsto> Str []]"

section \<open>Properties\<close>

subsection \<open>One invocation: the request made and the result\<close>

lemmas case_defs =
  case_upload_asset_def case_list_assets_def case_delete_asset_def case_list_folders_def
  case_create_folder_def case_update_folder_def case_trash_folder_def case_restore_folder_def

lemma fst_makeRequest: "fst (makeRequest k w u m b ct) = request_options k u m b ct"
  by (simp add: makeRequest_def Let_def)

lemma snd_makeRequest:
  "snd (makeRequest k w u m b ct) = await_response (fetch w (request_options k u m b ct))"
  by (simp add: makeRequest_def Let_def)

lemma request_then_return_makeRequest:
  "request_then_return (makeRequest k w u m b ct) =
     ([request_options k u m b ct],
      case await_response (fetch w (request_options k u m b ct)) of
        Inl e \<Rightarrow> Inl e | Inr d \<Rightarrow> Inr (text_result d))"
  by (simp add: request_then_return_def fst_makeRequest snd_makeRequest)

lemma run_case_sent:
  "fst (run_case l k w args) = [] \<or>
   (\<exists>r. fst (run_case l k w args) = [r] \<and>
        snd (run_case l k w args) =
          (case await_response (fetch w r) of Inl e \<Rightarrow> Inl e | Inr d \<Rightarrow> Inr (text_result d)))"
  by (cases l)
     (simp_all add: case_defs request_then_return_makeRequest Let_def
        split: option.splits sum.splits)

lemma try_block_sent:
  assumes "fst (try_block k w n args) = [r]"
  shows "snd (try_block k w n args) =
     (case await_response (fetch w r) of Inl e \<Rightarrow> Inl e | Inr d \<Rightarrow> Inr (text_result d))"
proof (cases "switch_label n")
  case None
  with assms show ?thesis by (simp add: try_block_def)
next
  case (Some l)
  with assms run_case_sent [of l k w args] show ?thesis
    by (auto simp: try_block_def)
qed

lemma handler_sent: "fst (CallTool_handler k w n args) = fst (try_block k w n args)"
  by (simp add: CallTool_handler_def split: prod.splits sum.splits)

lemma handler_result:
  "snd (CallTool_handler k w n args) =
     Inr (case snd (try_block k w n args) of Inl e \<Rightarrow> catch_block e | Inr r \<Rightarrow> r)"
  by (simp add: CallTool_handler_def split: prod.splits sum.splits)

lemma run_case_one_text:
  "snd (run_case l k w args) = Inr r \<Longrightarrow> \<exists>t. r = \<lparr>content = [TextItem t], isError = None\<rparr>"
  by (cases l)
     (auto simp: case_defs request_then_return_makeRequest text_result_def Let_def
        split: option.splits sum.splits)

subsection \<open>Failures at the dispatcher boundary\<close>

lemma handler_returns:
  "\<exists>t flag. snd (CallTool_handler k w n args) = Inr \<lparr>content = [TextItem t], isError = flag\<rparr>"
proof (cases "snd (try_block k w n args)")
  case (Inl e)
  then show ?thesis by (simp add: handler_result catch_block_def)
next
  case (Inr r)
  then have "\<exists>t flag. r = \<lparr>content = [TextItem t], isError = flag\<rparr>"
  proof (cases "switch_label n")
    case None
    with Inr show ?thesis by (auto simp: try_block_def)
  next
    case (Some l)
    with Inr run_case_one_text [of l k w args r] show ?thesis
      by (auto simp: try_block_def)
  qed
  with Inr show ?thesis by (auto simp: handler_result)
qed

lemma serve_length: "length (snd (serve k w calls)) = length calls"
  by (induction calls) (simp_all add: Let_def)

lemma serve_returns:
  "c \<in> set (snd (serve k w calls)) \<Longrightarrow>
   \<exists>t flag. c = Inr \<lparr>content = [TextItem t], isError = flag\<rparr>"
proof (induction calls)
  case Nil
  then show ?case by simp
next
  case (Cons a calls)
  then show ?case
    using handler_returns [of k w "fst a" "snd a"] by (auto simp: Let_def)
qed

lemma example_serve:
  "snd (serve ''key'' (example_world not_found)
          [(''make_video'', None), (''list_assets'', None),
           (''delete_asset'', Some [''asset_id'' \<mapsto> Str ''a1''])]) =
     [Inr \<lparr>content = [TextItem ''Unknown tool: make_video''], isError = Some True\<rparr>,
      Inr \<lparr>content = [TextItem
             ''Error: Cannot destructure property 'folder_id' of 'args' as it is undefined.''],
           isError = Some True\<rparr>,
      Inr \<lparr>content = [TextItem ''Error: API request failed: 404 - {\"error\":\"not found\"}''],
           isError = Some True\<rparr>]"
  by code_simp

text \<open>
  Claim C1. Whatever the invocation, the handler returns an envelope with one text item and
  lets nothing escape; so a process that serves a sequence of invocations answers every
  one of them, whatever failed before. An unknown tool name gives the flagged message
  \<^verbatim>\<open>Unknown tool: <name>\<close> without any request; whatever the \<^verbatim>\<open>try\<close> block throws gives
  the flagged message \<^verbatim>\<open>Error: <message>\<close>. In particular a failing \<^verbatim>\<open>readFileSync\<close> in
  \<^verbatim>\<open>upload_asset\<close> does so before any request is made, and so does every request that
  \<^verbatim>\<open>fetch\<close> rejects, whose body does not parse, or whose status is not a success.
\<close>

theorem failures_become_error_responses:
  "(\<exists>t flag. snd (CallTool_handler k w n args) =
      Inr \<lparr>content = [TextItem t], isError = flag\<rparr>) \<and>
   length (snd (serve k w calls)) = length calls \<and>
   (\<forall>c \<in> set (snd (serve k w calls)).
      \<exists>t flag. c = Inr \<lparr>content = [TextItem t], isError = flag\<rparr>) \<and>
   (switch_label n = None \<longrightarrow>
      CallTool_handler k w n args =
        ([], Inr \<lparr>content = [TextItem (''Unknown tool: '' @ n)], isError = Some True\<rparr>)) \<and>
   (\<forall>e. snd (try_block k w n args) = Inl e \<longrightarrow>
      snd (CallTool_handler k w n args) =
        Inr \<lparr>content = [TextItem (''Error: '' @ error_text e)], isError = Some True\<rparr>) \<and>
   (\<forall>obj e. n = ''upload_asset'' \<and> args = Some obj \<and>
      readFileSync w (property obj ''file_path'') = Inl e \<longrightarrow>
      CallTool_handler k w n args =
        ([], Inr \<lparr>content = [TextItem (''Error: '' @ error_text e)], isError = Some True\<rparr>)) \<and>
   (\<forall>r e. fst (CallTool_handler k w n args) = [r] \<and> await_response (fetch w r) = Inl e \<longrightarrow>
      snd (CallTool_handler k w n args) =
        Inr \<lparr>content = [TextItem (''Error: '' @ error_text e)], isError = Some True\<rparr>)"
proof (intro conjI allI impI ballI)
  show "\<exists>t flag. snd (CallTool_handler k w n args) =
      Inr \<lparr>content = [TextItem t], isError = flag\<rparr>"
    by (rule handler_returns)
next
  show "length (snd (serve k w calls)) = length calls"
    by (rule serve_length)
next
  fix c assume "c \<in> set (snd (serve k w calls))"
  then show "\<exists>t flag. c = Inr \<lparr>content = [TextItem t], isError = flag\<rparr>"
    by (rule serve_returns)
next
  assume "switch_label n = None"
  then show "CallTool_handler k w n args =
        ([], Inr \<lparr>content = [TextItem (''Unknown tool: '' @ n)], isError = Some True\<rparr>)"
    by (simp add: CallTool_handler_def try_block_def)
next
  fix e assume "snd (try_block k w n args) = Inl e"
  then show "snd (CallTool_handler k w n args) =
        Inr \<lparr>content = [TextItem (''Error: '' @ error_text e)], isError = Some True\<rparr>"
    by (simp add: handler_result catch_block_def)
next
  fix obj e
  assume "n = ''upload_asset'' \<and> args = Some obj \<and>
      readFileSync w (property obj ''file_path'') = Inl e"
  then show "CallTool_handler k w n args =
        ([], Inr \<lparr>content = [TextItem (''Error: '' @ error_text e)], isError = Some True\<rparr>)"
    by (simp add: CallTool_handler_def try_block_def switch_label_def case_upload_asset_def
          catch_block_def Let_def)
next
  fix r e
  assume "fst (CallTool_handler k w n args) = [r] \<and> await_response (fetch w r) = Inl e"
  then have "snd (try_block k w n args) = Inl e"
    using try_block_sent [of k w n args r] by (simp add: handler_sent)
  then show "snd (CallTool_handler k w n args) =
        Inr \<lparr>content = [TextItem (''Error: '' @ error_text e)], isError = Some True\<rparr>"
    by (simp add: handler_result catch_block_def)
qed

theorem failures_become_error_responses_witness:
  "switch_label ''make_video'' = None \<and>
   CallTool_handler ''key'' (example_world not_found) ''make_video'' None =
     ([], Inr \<lparr>content = [TextItem ''Unknown tool: make_video''], isError = Some True\<rparr>) \<and>
   snd (try_block ''key'' (example_world not_found) ''list_assets'' None) =
     Inl (destructure_error ''folder_id'') \<and>
   snd (CallTool_handler ''key'' (example_world not_found) ''list_assets'' None) =
     Inr \<lparr>content = [TextItem
            ''Error: Cannot destructure property 'folder_id' of 'args' as it is undefined.''],
          isError = Some True\<rparr> \<and>
   readFileSync (example_world not_found) (property [''file_path'' \<mapsto> Str ''b.png''] ''file_path'') =
     Inl (ErrorObject ''ENOENT: no such file or directory'') \<and>
   CallTool_handler ''key'' (example_world not_found) ''upload_asset''
       (Some [''file_path'' \<mapsto> Str ''b.png'']) =
     ([], Inr \<lparr>content = [TextItem ''Error: ENOENT: no such file or directory''],
              isError = Some True\<rparr>) \<and>
   fst (CallTool_handler ''key'' (example_world (Rejected (ErrorObject ''ECONNREFUSED'')))
          ''trash_folder'' (Some [''folder_id'' \<mapsto> Str ''f1''])) =
     [request_options ''key'' ''https://api.heygen.com/v1/folders/f1/trash'' ''POST''
        BUndefined Undefined] \<and>
   snd (CallTool_handler ''key'' (example_world (Rejected (ErrorObject ''ECONNREFUSED'')))
          ''trash_folder'' (Some [''folder_id'' \<mapsto> Str ''f1''])) =
     Inr \<lparr>content = [TextItem ''Error: ECONNREFUSED''], isError = Some True\<rparr> \<and>
   snd (serve ''key'' (example_world not_found)
          [(''make_video'', None), (''list_assets'', None),
           (''delete_asset'', Some [''asset_id'' \<mapsto> Str ''a1''])]) =
     [Inr \<lparr>content = [TextItem ''Unknown tool: make_video''], isError = Some True\<rparr>,
      Inr \<lparr>content = [TextItem
             ''Error: Cannot destructure property 'folder_id' of 'args' as it is undefined.''],
           isError = Some True\<rparr>,
      Inr \<lparr>content = [TextItem ''Error: API request failed: 404 - {\"error\":\"not found\"}''],
           isError = Some True\<rparr>]"
  using failures_become_error_responses
          [of "''key''" "example_world not_found" "''make_video''" None
              "[(''make_video'', None), (''list_assets'', None),
                (''delete_asset'', Some [''asset_id'' \<mapsto> Str ''a1''])]"]
        failures_become_error_responses
          [of "''key''" "example_world not_found" "''list_assets''" None "[]"]
        failures_become_error_responses
          [of "''key''" "example_world not_found" "''upload_asset''"
              "Some [''file_path'' \<mapsto> Str ''b.png'']" "[]"]
        failures_become_error_responses
          [of "''key''" "example_world (Rejected (ErrorObject ''ECONNREFUSED''))"
              "''trash_folder''" "Some [''folder_id'' \<mapsto> Str ''f1'']" "[]"]
        example_serve
  by (simp add: switch_label_def try_block_def case_defs destructure_error_def error_text_def
        example_world_def property_def CallTool_handler_def request_then_return_makeRequest
        await_response_def catch_block_def API_BASE_URL_def)


subsection \<open>The transport adapter\<close>

lemma request_options_key: "headers (request_options k u m b ct) ''X-Api-Key'' = Some (Str k)"
  by (simp add: request_options_def request_headers_def Let_def)

text \<open>
  Claim C2, as amended. The call made to \<^verbatim>\<open>fetch\<close> has the given URL and method and two
  headers at most. \<^verbatim>\<open>X-Api-Key\<close> always holds the key. \<^verbatim>\<open>Content-Type\<close> is the explicit
  content type when that is truthy (a non-empty string); otherwise it is
  \<^verbatim>\<open>application/json\<close> for an object body and is not set for a string, a Buffer or no
  body. Whatever the content type, an object body is sent as its JSON serialization, a
  Buffer and a non-empty string are sent as they are, and an empty string sets no body.
\<close>

theorem makeRequest_options:
  "fst (makeRequest k w u m b ct) =
     \<lparr>url = u, http_method = m,
      headers =
        (\<lambda>h. if h = ''X-Api-Key'' then Some (Str k)
             else if h = ''Content-Type'' then
               (if truthy ct then Some ct
                else case b of BObject ps \<Rightarrow> Some (Str ''application/json'') | _ \<Rightarrow> None)
             else None),
      body =
        (case b of
           BUndefined \<Rightarrow> None
         | BString s \<Rightarrow> if s = [] then None else Some (WString s)
         | BBuffer bs \<Rightarrow> Some (WBuffer bs)
         | BObject ps \<Rightarrow> Some (WString (stringify_object ps)))\<rparr>"
  by (cases b)
     (auto simp: fst_makeRequest request_options_def request_headers_def request_body_def)

text \<open>
  Claim C2, as stated, fails for an explicit content type that is the empty string: the
  guard \<^verbatim>\<open>if (contentType)\<close> takes it for absent, so a Buffer goes out with no
  \<^verbatim>\<open>Content-Type\<close> and an object with \<^verbatim>\<open>application/json\<close>.
\<close>

theorem explicit_empty_content_type_counterexample:
  "headers (fst (makeRequest ''key'' (example_world not_found) ''https://upload.heygen.com/v1/asset''
                   ''POST'' (BBuffer [137, 80, 78, 71]) (Str ''''))) ''Content-Type'' = None \<and>
   headers (fst (makeRequest ''key'' (example_world not_found) ''https://api.heygen.com/v1/folders/f1''
                   ''POST'' (BObject [(''name'', Str ''n'')]) (Str ''''))) ''Content-Type'' =
     Some (Str ''application/json'')"
  by (simp add: fst_makeRequest request_options_def request_headers_def)

subsection \<open>\<^verbatim>\<open>upload_asset\<close>\<close>

text \<open>
  Claim C5, as amended. When the file at \<^verbatim>\<open>file_path\<close> can be read, \<^verbatim>\<open>upload_asset\<close> makes
  one request: a POST to the upload endpoint whose body is the Buffer of the file's bytes,
  not a serialization of it. Its \<^verbatim>\<open>Content-Type\<close> is the \<^verbatim>\<open>mime_type\<close> argument when that is
  truthy (a non-empty string), and is not set otherwise.
\<close>

theorem upload_asset_request:
  assumes "readFileSync w (property obj ''file_path'') = Inr bytes"
  shows "fst (CallTool_handler k w ''upload_asset'' (Some obj)) =
     [\<lparr>url = ''https://upload.heygen.com/v1/asset'', http_method = ''POST'',
       headers =
         (\<lambda>h. if h = ''X-Api-Key'' then Some (Str k)
              else if h = ''Content-Type'' \<and> truthy (property obj ''mime_type'')
                then Some (property obj ''mime_type'')
              else None),
       body = Some (WBuffer bytes)\<rparr>]"
  using assms
  by (auto simp: handler_sent try_block_def switch_label_def case_upload_asset_def Let_def
        request_then_return_makeRequest request_options_def request_headers_def
        request_body_def UPLOAD_BASE_URL_def)

theorem upload_asset_request_witness:
  "readFileSync (example_world not_found)
     (property [''file_path'' \<mapsto> Str ''a.png'', ''mime_type'' \<mapsto> Str ''image/png''] ''file_path'') =
     Inr [137, 80, 78, 71] \<and>
   map (\<lambda>r. (url r, http_method r, headers r ''Content-Type'', body r))
     (fst (CallTool_handler ''key'' (example_world not_found) ''upload_asset''
        (Some [''file_path'' \<mapsto> Str ''a.png'', ''mime_type'' \<mapsto> Str ''image/png'']))) =
     [(''https://upload.heygen.com/v1/asset'', ''POST'', Some (Str ''image/png''),
       Some (WBuffer [137, 80, 78, 71]))]"
  using upload_asset_request
    [of "example_world not_found"
        "[''file_path'' \<mapsto> Str ''a.png'', ''mime_type'' \<mapsto> Str ''image/png'']"
        "[137, 80, 78, 71]" "''key''"]
  by (simp add: example_world_def property_def)

text \<open>
  Claim C5, as stated, fails for the \<^verbatim>\<open>mime_type\<close> \<^verbatim>\<open>""\<close>: the file's bytes are posted
  without any \<^verbatim>\<open>Content-Type\<close>.
\<close>

theorem upload_empty_mime_type_counterexample:
  "map (\<lambda>r. (headers r ''Content-Type'', body r))
     (fst (CallTool_handler ''key'' (example_world not_found) ''upload_asset''
        (Some [''file_path'' \<mapsto> Str ''a.png'', ''mime_type'' \<mapsto> Str '''']))) =
     [(None, Some (WBuffer [137, 80, 78, 71]))]"
  by (simp add: handler_sent try_block_def switch_label_def case_upload_asset_def Let_def
        request_then_return_makeRequest request_options_def request_headers_def
        request_body_def example_world_def property_def)

subsection \<open>\<^verbatim>\<open>create_folder\<close>\<close>





subsection \<open>The outcome of a request\<close>

lemma show_nat_404: "show_nat 404 = ''404''"
  by code_simp

text \<open>
  Claim C6, as amended. When the body of the response parses as JSON, \<^verbatim>\<open>makeRequest\<close>
  returns the parsed body on a status from 200 to 299 and otherwise throws an error whose
  message holds the status and the JSON serialization of the parsed body. When the body
  does not parse, the rejection of \<^verbatim>\<open>response.json()\<close> is what \<^verbatim>\<open>makeRequest\<close> throws,
  whatever the status. A response with status 404 and body \<^verbatim>\<open>{"error":"not found"}\<close>
  to the request of an invocation gives the flagged text
  \<^verbatim>\<open>Error: API request failed: 404 - {"error":"not found"}\<close>, which contains both.
\<close>

theorem makeRequest_outcome:
  "(fetch w (request_options k u m b ct) = Response status (Inr data) \<longrightarrow>
      snd (makeRequest k w u m b ct) =
        (if response_ok status then Inr data
         else Inl (ErrorObject (''API request failed: '' @ show_nat status @ '' - '' @
                                JSON_stringify data)))) \<and>
   (fetch w (request_options k u m b ct) = Response status (Inl e) \<longrightarrow>
      snd (makeRequest k w u m b ct) = Inl e) \<and>
   (\<forall>r. fst (CallTool_handler k w n args) = [r] \<and>
        fetch w r = Response 404 (Inr (JObj [(''error'', JStr ''not found'')])) \<longrightarrow>
      snd (CallTool_handler k w n args) =
        Inr \<lparr>content = [TextItem ''Error: API request failed: 404 - {\"error\":\"not found\"}''],
             isError = Some True\<rparr> \<and>
      sublist ''404'' ''Error: API request failed: 404 - {\"error\":\"not found\"}'' \<and>
      sublist ''{\"error\":\"not found\"}''
        ''Error: API request failed: 404 - {\"error\":\"not found\"}'')"
proof (intro conjI allI impI)
  assume "fetch w (request_options k u m b ct) = Response status (Inr data)"
  then show "snd (makeRequest k w u m b ct) =
        (if response_ok status then Inr data
         else Inl (ErrorObject (''API request failed: '' @ show_nat status @ '' - '' @
                                JSON_stringify data)))"
    by (simp add: snd_makeRequest await_response_def)
next
  assume "fetch w (request_options k u m b ct) = Response status (Inl e)"
  then show "snd (makeRequest k w u m b ct) = Inl e"
    by (simp add: snd_makeRequest await_response_def)
next
  fix r
  assume a: "fst (CallTool_handler k w n args) = [r] \<and>
        fetch w r = Response 404 (Inr (JObj [(''error'', JStr ''not found'')]))"
  then have "await_response (fetch w r) =
      Inl (ErrorObject (''API request failed: '' @ ''404'' @ '' - '' @ ''{\"error\":\"not found\"}''))"
    by (simp add: await_response_def response_ok_def show_nat_404 json_quote_def json_escape_def)
  with a have "snd (try_block k w n args) =
      Inl (ErrorObject ''API request failed: 404 - {\"error\":\"not found\"}'')"
    using try_block_sent [of k w n args r] by (simp add: handler_sent)
  then show "snd (CallTool_handler k w n args) =
        Inr \<lparr>content = [TextItem ''Error: API request failed: 404 - {\"error\":\"not found\"}''],
             isError = Some True\<rparr>"
    by (simp add: handler_result catch_block_def error_text_def)
next
  have "sublist ''404'' (''Error: API request failed: '' @ ''404'' @ '' - {\"error\":\"not found\"}'')"
    by (rule sublist_appendI)
  then show "sublist ''404'' ''Error: API request failed: 404 - {\"error\":\"not found\"}''"
    by simp
next
  have "sublist ''{\"error\":\"not found\"}''
          (''Error: API request failed: 404 - '' @ ''{\"error\":\"not found\"}'')"
    by (rule sublist_append_leftI)
  then show "sublist ''{\"error\":\"not found\"}''
        ''Error: API request failed: 404 - {\"error\":\"not found\"}''"
    by simp
qed

theorem makeRequest_outcome_witness:
  "fetch (example_world not_found)
     (request_options ''key'' ''https://api.heygen.com/v1/asset/a1/delete'' ''POST'' BUndefined Undefined) =
     Response 404 (Inr (JObj [(''error'', JStr ''not found'')])) \<and>
   snd (makeRequest ''key'' (example_world not_found) ''https://api.heygen.com/v1/asset/a1/delete''
          ''POST'' BUndefined Undefined) =
     Inl (ErrorObject ''API request failed: 404 - {\"error\":\"not found\"}'') \<and>
   fetch (example_world bad_gateway)
     (request_options ''key'' ''https://api.heygen.com/v1/asset/a1/delete'' ''POST'' BUndefined Undefined) =
     Response 502 (Inl (ErrorObject ''invalid json response body'')) \<and>
   snd (makeRequest ''key'' (example_world bad_gateway) ''https://api.heygen.com/v1/asset/a1/delete''
          ''POST'' BUndefined Undefined) =
     Inl (ErrorObject ''invalid json response body'') \<and>
   fst (CallTool_handler ''key'' (example_world not_found) ''delete_asset''
          (Some [''asset_id'' \<mapsto> Str ''a1''])) =
     [request_options ''key'' ''https://api.heygen.com/v1/asset/a1/delete'' ''POST'' BUndefined Undefined] \<and>
   snd (CallTool_handler ''key'' (example_world not_found) ''delete_asset''
          (Some [''asset_id'' \<mapsto> Str ''a1''])) =
     Inr \<lparr>content = [TextItem ''Error: API request failed: 404 - {\"error\":\"not found\"}''],
          isError = Some True\<rparr>"
  using makeRequest_outcome
          [of "example_world not_found" "''key''" "''https://api.heygen.com/v1/asset/a1/delete''"
              "''POST''" BUndefined Undefined 404 "JObj [(''error'', JStr ''not found'')]" _
              "''delete_asset''" "Some [''asset_id'' \<mapsto> Str ''a1'']"]
        makeRequest_outcome
          [of "example_world bad_gateway" "''key''" "''https://api.heygen.com/v1/asset/a1/delete''"
              "''POST''" BUndefined Undefined 502 _ "ErrorObject ''invalid json response body''"
              "''delete_asset''" "Some [''asset_id'' \<mapsto> Str ''a1'']"]
  by (simp add: example_world_def not_found_def bad_gateway_def response_ok_def show_nat_404
        json_quote_def json_escape_def handler_sent try_block_def switch_label_def case_delete_asset_def
        request_then_return_makeRequest property_def API_BASE_URL_def)

text \<open>
  Claim C6, as stated, fails for a response with status 502 whose body is not JSON: the
  error that \<^verbatim>\<open>makeRequest\<close> throws is the parse failure, and neither it nor the flagged
  text of the invocation holds the status.
\<close>

theorem error_status_without_json_counterexample:
  "snd (makeRequest ''key'' (example_world bad_gateway) ''https://api.heygen.com/v1/folders''
          ''GET'' BUndefined Undefined) =
     Inl (ErrorObject ''invalid json response body'') \<and>
   \<not> sublist ''502'' ''invalid json response body'' \<and>
   snd (CallTool_handler ''key'' (example_world bad_gateway) ''list_folders'' (Some Map.empty)) =
     Inr \<lparr>content = [TextItem ''Error: invalid json response body''], isError = Some True\<rparr> \<and>
   \<not> sublist ''502'' ''Error: invalid json response body''"
  by (simp add: snd_makeRequest await_response_def example_world_def bad_gateway_def
        handler_result try_block_def switch_label_def case_list_folders_def
        list_folders_params_def property_def request_then_return_makeRequest
        catch_block_def error_text_def sublist_Cons_right)

subsection \<open>Query strings\<close>

lemma urlencode_append: "urlencode (xs @ ys) = urlencode xs @ urlencode ys"
  by (simp add: urlencode_def)

lemma urlencode_Cons: "urlencode (c # cs) = urlencode_byte c @ urlencode cs"
  by (simp add: urlencode_def)

lemma urlencode_Nil: "urlencode [] = []"
  by (simp add: urlencode_def)

lemma of_char_less_256: "(of_char c :: nat) < 256"
  by (metis of_char_of char_of_char mod_less_divisor zero_less_numeral)

lemma hex_value_hex_upper: "d < 16 \<Longrightarrow> hex_value (hex_upper d) = d"
  by (simp add: hex_value_def hex_upper_def Let_def)

lemma urldecode_byte:
  "urldecode (urlencode_byte c @ rest) = c # urldecode rest"
proof (cases "unreserved c")
  case True
  then have "c \<noteq> CHR ''+''" "c \<noteq> CHR ''%''"
    by (auto simp: unreserved_def)
  with True show ?thesis by (simp add: urlencode_byte_def)
next
  case False
  show ?thesis
  proof (cases "c = CHR '' ''")
    case True
    with False show ?thesis by (simp add: urlencode_byte_def)
  next
    case sp: False
    let ?n = "of_char c :: nat"
    have "?n < 16 * 16" using of_char_less_256 [of c] by simp
    then have "?n div 16 < 16" by (rule less_mult_imp_div_less)
    moreover have "?n mod 16 < 16" by simp
    ultimately have "hex_value (hex_upper (?n div 16)) * 16 + hex_value (hex_upper (?n mod 16)) = ?n"
      by (simp add: hex_value_hex_upper)
    then show ?thesis using False sp by (simp add: urlencode_byte_def)
  qed
qed

lemma urldecode_urlencode_append: "urldecode (urlencode s @ rest) = s @ urldecode rest"
  by (induction s) (simp_all add: urlencode_Nil urlencode_Cons urldecode_byte)

lemma urldecode_urlencode: "urldecode (urlencode s) = s"
  using urldecode_urlencode_append [of s "[]"] by simp

lemma of_char_hex_upper:
  "d < 16 \<Longrightarrow> (of_char (hex_upper d) :: nat) = (if d < 10 then 48 + d else 55 + d)"
  by (simp add: hex_upper_def)

lemma urlencode_byte_no_delimiter:
  assumes "x \<in> set (urlencode_byte c)"
  shows "x \<noteq> CHR ''&'' \<and> x \<noteq> CHR ''=''"
proof -
  let ?n = "of_char c :: nat"
  have "?n < 16 * 16" using of_char_less_256 [of c] by simp
  then have hi: "?n div 16 < 16" by (rule less_mult_imp_div_less)
  have lo: "?n mod 16 < 16" by simp
  have "(of_char x :: nat) \<noteq> 38 \<and> (of_char x :: nat) \<noteq> 61"
    using assms of_char_hex_upper [OF hi] of_char_hex_upper [OF lo]
    by (auto simp: urlencode_byte_def unreserved_def split: if_splits)
  then show ?thesis by auto
qed

lemma urlencode_no_delimiter:
  "x \<in> set (urlencode s) \<Longrightarrow> x \<noteq> CHR ''&'' \<and> x \<noteq> CHR ''=''"
  by (induction s) (auto simp: urlencode_Nil urlencode_Cons dest: urlencode_byte_no_delimiter)

lemma urlencode_digit: "d < 10 \<Longrightarrow> urlencode_byte (digit_char d) = [digit_char d]"
  by (simp add: urlencode_byte_def unreserved_def digit_char_def)

lemma urlencode_show_nat: "urlencode (show_nat n) = show_nat n"
proof (induction n rule: show_nat.induct)
  case (1 n)
  show ?case
  proof (cases "n < 10")
    case True
    then show ?thesis
      by (subst (1 2) show_nat.simps) (simp add: urlencode_Cons urlencode_Nil urlencode_digit)
  next
    case False
    with 1 show ?thesis
      by (subst (1 2) show_nat.simps)
         (simp add: urlencode_append urlencode_Cons urlencode_Nil urlencode_digit)
  qed
qed

lemma urlencode_show_int: "urlencode (show_int i) = show_int i"
  by (simp add: show_int_def urlencode_Cons urlencode_show_nat urlencode_byte_def unreserved_def)

lemma urlencode_limit: "urlencode ''limit'' = ''limit''"
  by (simp add: urlencode_def urlencode_byte_def unreserved_def)

lemma show_int_0: "show_int 0 = ''0''"
  by code_simp

lemma sublist_join: "x \<in> set xs \<Longrightarrow> sublist x (join sep xs)"
proof (induction sep xs rule: join.induct)
  case (3 sep y z zs)
  show ?case
  proof (cases "x = y")
    case True
    then show ?thesis by simp
  next
    case False
    with 3 have "sublist x (join sep (z # zs))" by simp
    then obtain ps ss where "join sep (z # zs) = ps @ x @ ss"
      by (auto simp: sublist_def)
    then have "join sep (y # z # zs) = (y @ sep @ ps) @ x @ ss" by simp
    then show ?thesis unfolding sublist_def by blast
  qed
qed simp_all

lemma length_join:
  "length (join sep xs) = sum_list (map length xs) + length sep * (length xs - 1)"
  by (induction sep xs rule: join.induct) simp_all

lemma length_join_insert:
  assumes "x \<noteq> []"
  shows "length (join sep (as @ bs)) < length (join sep (as @ [x] @ bs))"
proof -
  have "length as + length bs - 1 \<le> length as + length bs" by simp
  then have le: "length sep * (length as + length bs - 1) \<le> length sep * (length as + length bs)"
    by (rule mult_le_mono2)
  have pos: "0 < length x" using assms by simp
  have a: "length (join sep (as @ bs)) =
      sum_list (map length as) + sum_list (map length bs) +
      length sep * (length as + length bs - 1)"
    by (simp add: length_join)
  have b: "length (join sep (as @ [x] @ bs)) =
      sum_list (map length as) + length x + sum_list (map length bs) +
      length sep * (length as + length bs)"
    by (simp add: length_join)
  show ?thesis unfolding a b using le pos by linarith
qed

lemma join_Nil_iff: "xs \<noteq> [] \<Longrightarrow> hd xs \<noteq> [] \<Longrightarrow> join sep xs \<noteq> []"
  by (induction sep xs rule: join.induct) auto

lemma URLSearchParams_toString_Nil: "URLSearchParams_toString ps = [] \<longleftrightarrow> ps = []"
proof
  assume a: "URLSearchParams_toString ps = []"
  show "ps = []"
  proof (rule ccontr)
    assume "ps \<noteq> []"
    then have "join ''&'' (map urlencode_pair ps) \<noteq> []"
      by (intro join_Nil_iff) (auto simp: hd_map urlencode_pair_def)
    with a show False by (simp add: URLSearchParams_toString_def)
  qed
qed (simp add: URLSearchParams_toString_def)

lemma with_query_eq:
  "with_query base ps = base @ (if ps = [] then [] else ''?'' @ URLSearchParams_toString ps)"
  by (simp add: with_query_def Let_def URLSearchParams_toString_Nil)


lemma list_assets_params_eq:
  "property obj ''limit'' \<noteq> Null \<Longrightarrow>
   list_assets_params obj =
     Inr ((if truthy (property obj ''folder_id'') then [(''folder_id'', js_String (property obj ''folder_id''))] else []) @
          (if truthy (property obj ''file_type'') then [(''file_type'', js_String (property obj ''file_type''))] else []) @
          (if property obj ''limit'' \<noteq> Undefined then [(''limit'', js_String (property obj ''limit''))] else []) @
          (if truthy (property obj ''token'') then [(''token'', js_String (property obj ''token''))] else []))"
  by (cases "property obj ''limit''") (auto simp: list_assets_params_def Let_def)


lemma list_folders_params_eq:
  "property obj ''limit'' \<noteq> Null \<Longrightarrow> property obj ''is_trash'' \<noteq> Null \<Longrightarrow>
   list_folders_params obj =
     Inr ((if property obj ''limit'' \<noteq> Undefined then [(''limit'', js_String (property obj ''limit''))] else []) @
          (if truthy (property obj ''parent_id'') then [(''parent_id'', js_String (property obj ''parent_id''))] else []) @
          (if truthy (property obj ''name_filter'') then [(''name_filter'', js_String (property obj ''name_filter''))] else []) @
          (if property obj ''is_trash'' \<noteq> Undefined then [(''is_trash'', js_String (property obj ''is_trash''))] else []) @
          (if truthy (property obj ''token'') then [(''token'', js_String (property obj ''token''))] else []))"
  by (cases "property obj ''limit''"; cases "property obj ''is_trash''")
     (auto simp: list_folders_params_def Let_def)

lemma list_assets_sent:
  "list_assets_params obj = Inr ps \<Longrightarrow>
   fst (CallTool_handler k w ''list_assets'' (Some obj)) =
     [\<lparr>url = ''https://api.heygen.com/v1/asset/list'' @
              (if ps = [] then [] else ''?'' @ URLSearchParams_toString ps),
       http_method = ''GET'', headers = [''X-Api-Key'' \<mapsto> Str k], body = None\<rparr>]"
  by (simp add: handler_sent try_block_def switch_label_def case_list_assets_def
        request_then_return_makeRequest request_options_def request_headers_def
        request_body_def with_query_eq API_BASE_URL_def)

lemma list_folders_sent:
  "list_folders_params obj = Inr ps \<Longrightarrow>
   fst (CallTool_handler k w ''list_folders'' (Some obj)) =
     [\<lparr>url = ''https://api.heygen.com/v1/folders'' @
              (if ps = [] then [] else ''?'' @ URLSearchParams_toString ps),
       http_method = ''GET'', headers = [''X-Api-Key'' \<mapsto> Str k], body = None\<rparr>]"
  by (simp add: handler_sent try_block_def switch_label_def case_list_folders_def
        request_then_return_makeRequest request_options_def request_headers_def
        request_body_def with_query_eq API_BASE_URL_def)




lemma property_upd_same: "property (obj(n \<mapsto> v)) n = v"
  by (simp add: property_def)

lemma property_upd_other: "n \<noteq> m \<Longrightarrow> property (obj(m := x)) n = property obj n"
  by (simp add: property_def)

lemma property_del_same: "property (obj(n := None)) n = Undefined"
  by (simp add: property_def)

lemma list_assets_params_limit:
  "\<exists>as bs. list_assets_params (obj(''limit'' \<mapsto> Num i)) = Inr (as @ [(''limit'', show_int i)] @ bs) \<and>
           list_assets_params (obj(''limit'' := None)) = Inr (as @ bs)"
proof -
  let ?as = "(if truthy (property obj ''folder_id'')
              then [(''folder_id'', js_String (property obj ''folder_id''))] else []) @
             (if truthy (property obj ''file_type'')
              then [(''file_type'', js_String (property obj ''file_type''))] else [])"
  let ?bs = "if truthy (property obj ''token'')
             then [(''token'', js_String (property obj ''token''))] else []"
  have "list_assets_params (obj(''limit'' \<mapsto> Num i)) = Inr (?as @ [(''limit'', show_int i)] @ ?bs)"
    by (subst list_assets_params_eq)
       (simp_all add: property_upd_same property_upd_other)
  moreover have "list_assets_params (obj(''limit'' := None)) = Inr (?as @ ?bs)"
    by (subst list_assets_params_eq)
       (simp_all add: property_del_same property_upd_other)
  ultimately show ?thesis by blast
qed

lemma list_folders_params_limit:
  assumes "property obj ''is_trash'' \<noteq> Null"
  shows "\<exists>bs. list_folders_params (obj(''limit'' \<mapsto> Num i)) = Inr ([] @ [(''limit'', show_int i)] @ bs) \<and>
           list_folders_params (obj(''limit'' := None)) = Inr ([] @ bs)"
proof -
  let ?bs = "(if truthy (property obj ''parent_id'')
              then [(''parent_id'', js_String (property obj ''parent_id''))] else []) @
             (if truthy (property obj ''name_filter'')
              then [(''name_filter'', js_String (property obj ''name_filter''))] else []) @
             (if property obj ''is_trash'' \<noteq> Undefined
              then [(''is_trash'', js_String (property obj ''is_trash''))] else []) @
             (if truthy (property obj ''token'')
              then [(''token'', js_String (property obj ''token''))] else [])"
  have "list_folders_params (obj(''limit'' \<mapsto> Num i)) = Inr ([] @ [(''limit'', show_int i)] @ ?bs)"
    using assms
    by (subst list_folders_params_eq)
       (simp_all add: property_upd_same property_upd_other)
  moreover have "list_folders_params (obj(''limit'' := None)) = Inr ([] @ ?bs)"
    using assms
    by (subst list_folders_params_eq)
       (simp_all add: property_del_same property_upd_other)
  ultimately show ?thesis by blast
qed

lemma urlencode_pair_not_Nil: "urlencode_pair p \<noteq> []"
  by (simp add: urlencode_pair_def)

lemma with_query_insert:
  "length (with_query base (as @ bs)) < length (with_query base (as @ [p] @ bs))"
  using length_join_insert [OF urlencode_pair_not_Nil, of "''&''" "map urlencode_pair as" "map urlencode_pair bs" p]
  by (simp add: with_query_eq URLSearchParams_toString_def)

lemma with_query_neq: "with_query base (as @ [p] @ bs) \<noteq> with_query base (as @ bs)"
  using with_query_insert [of base as bs p] by auto

lemma param_in_url:
  assumes "p \<in> set ps"
  shows "sublist (urlencode_pair p) (with_query base ps)"
proof -
  from assms have "sublist (urlencode_pair p) (join ''&'' (map urlencode_pair ps))"
    by (intro sublist_join) simp
  then obtain xs ys where "join ''&'' (map urlencode_pair ps) = xs @ urlencode_pair p @ ys"
    by (auto simp: sublist_def)
  moreover from assms have "ps \<noteq> []" by auto
  ultimately have "with_query base ps = (base @ ''?'' @ xs) @ urlencode_pair p @ ys"
    by (simp add: with_query_eq URLSearchParams_toString_def)
  then show ?thesis unfolding sublist_def by blast
qed

lemma urlencode_pair_limit: "urlencode_pair (''limit'', show_int i) = ''limit='' @ show_int i"
  by (simp add: urlencode_pair_def urlencode_limit urlencode_show_int)

lemma urlencode_pair_limit_0: "urlencode_pair (''limit'', show_int 0) = ''limit=0''"
  using urlencode_pair_limit [of 0] by (simp add: show_int_0)

lemma list_assets_url:
  "list_assets_params obj = Inr ps \<Longrightarrow>
   map url (fst (CallTool_handler k w ''list_assets'' (Some obj))) =
     [with_query ''https://api.heygen.com/v1/asset/list'' ps]"
  by (simp add: list_assets_sent with_query_eq)

lemma list_folders_url:
  "list_folders_params obj = Inr ps \<Longrightarrow>
   map url (fst (CallTool_handler k w ''list_folders'' (Some obj))) =
     [with_query ''https://api.heygen.com/v1/folders'' ps]"
  by (simp add: list_folders_sent with_query_eq)










text \<open>
  Claim C4, as amended. A \<^verbatim>\<open>limit\<close> of 0 is sent: the URL built by \<^verbatim>\<open>list_assets\<close> for a bag
  with \<^verbatim>\<open>limit = 0\<close> contains \<^verbatim>\<open>limit=0\<close> and differs from the URL built for the same bag
  without \<^verbatim>\<open>limit\<close>; so it is for \<^verbatim>\<open>list_folders\<close> whenever \<^verbatim>\<open>is_trash\<close> is not \<^verbatim>\<open>null\<close>
  (with \<^verbatim>\<open>null\<close> no request is made).
\<close>

theorem limit_zero_is_sent:
  "(\<exists>u. map url (fst (CallTool_handler k w ''list_assets'' (Some (obj(''limit'' \<mapsto> Num 0))))) = [u] \<and>
        sublist ''limit=0'' u \<and>
        map url (fst (CallTool_handler k w ''list_assets'' (Some (obj(''limit'' := None))))) \<noteq> [u]) \<and>
   (property obj ''is_trash'' \<noteq> Null \<longrightarrow>
      (\<exists>u. map url (fst (CallTool_handler k w ''list_folders'' (Some (obj(''limit'' \<mapsto> Num 0))))) = [u] \<and>
        sublist ''limit=0'' u \<and>
        map url (fst (CallTool_handler k w ''list_folders'' (Some (obj(''limit'' := None))))) \<noteq> [u]))"
proof (intro conjI impI)
  obtain as bs where
    a: "list_assets_params (obj(''limit'' \<mapsto> Num 0)) = Inr (as @ [(''limit'', show_int 0)] @ bs)" and
    b: "list_assets_params (obj(''limit'' := None)) = Inr (as @ bs)"
    using list_assets_params_limit [of obj 0] by blast
  let ?u = "with_query ''https://api.heygen.com/v1/asset/list'' (as @ [(''limit'', show_int 0)] @ bs)"
  have "sublist (urlencode_pair (''limit'', show_int 0)) ?u"
    by (rule param_in_url) simp
  then have "sublist ''limit=0'' ?u"
    by (simp only: urlencode_pair_limit_0)
  then show "\<exists>u. map url (fst (CallTool_handler k w ''list_assets'' (Some (obj(''limit'' \<mapsto> Num 0))))) = [u] \<and>
        sublist ''limit=0'' u \<and>
        map url (fst (CallTool_handler k w ''list_assets'' (Some (obj(''limit'' := None))))) \<noteq> [u]"
    using with_query_neq [of "''https://api.heygen.com/v1/asset/list''" as "(''limit'', show_int 0)" bs]
    by (simp only: list_assets_url [OF a] list_assets_url [OF b]) auto
next
  assume "property obj ''is_trash'' \<noteq> Null"
  then obtain bs where
    a: "list_folders_params (obj(''limit'' \<mapsto> Num 0)) = Inr ([] @ [(''limit'', show_int 0)] @ bs)" and
    b: "list_folders_params (obj(''limit'' := None)) = Inr ([] @ bs)"
    using list_folders_params_limit [of obj 0] by blast
  let ?u = "with_query ''https://api.heygen.com/v1/folders'' ([] @ [(''limit'', show_int 0)] @ bs)"
  have "sublist (urlencode_pair (''limit'', show_int 0)) ?u"
    by (rule param_in_url) simp
  then have "sublist ''limit=0'' ?u"
    by (simp only: urlencode_pair_limit_0)
  then show "\<exists>u. map url (fst (CallTool_handler k w ''list_folders'' (Some (obj(''limit'' \<mapsto> Num 0))))) = [u] \<and>
        sublist ''limit=0'' u \<and>
        map url (fst (CallTool_handler k w ''list_folders'' (Some (obj(''limit'' := None))))) \<noteq> [u]"
    using with_query_neq [of "''https://api.heygen.com/v1/folders''" "[]" "(''limit'', show_int 0)" bs]
    by (simp only: list_folders_url [OF a] list_folders_url [OF b]) auto
qed

lemma example_limit_sent:
  "map url (fst (CallTool_handler ''key'' (example_world not_found) ''list_folders''
                   (Some (example_arguments(''limit'' \<mapsto> Num 0))))) =
     [''https://api.heygen.com/v1/folders?limit=0&name_filter=a%26b&is_trash=false'']"
  by code_simp

lemma example_limit_omitted:
  "map url (fst (CallTool_handler ''key'' (example_world not_found) ''list_folders''
                   (Some (example_arguments(''limit'' := None))))) =
     [''https://api.heygen.com/v1/folders?name_filter=a%26b&is_trash=false'']"
  by code_simp

lemma example_is_trash: "property example_arguments ''is_trash'' = Bool False"
  by code_simp

theorem limit_zero_is_sent_witness:
  "property example_arguments ''is_trash'' \<noteq> Null \<and>
   map url (fst (CallTool_handler ''key'' (example_world not_found) ''list_folders''
                   (Some (example_arguments(''limit'' \<mapsto> Num 0))))) =
     [''https://api.heygen.com/v1/folders?limit=0&name_filter=a%26b&is_trash=false''] \<and>
   sublist ''limit=0'' ''https://api.heygen.com/v1/folders?limit=0&name_filter=a%26b&is_trash=false'' \<and>
   map url (fst (CallTool_handler ''key'' (example_world not_found) ''list_folders''
                   (Some (example_arguments(''limit'' := None))))) \<noteq>
     [''https://api.heygen.com/v1/folders?limit=0&name_filter=a%26b&is_trash=false'']"
  using limit_zero_is_sent [of "''key''" "example_world not_found" example_arguments]
  by (simp add: example_limit_sent example_limit_omitted example_is_trash)

text \<open>
  Claim C4, as stated, fails: with \<^verbatim>\<open>limit = 0\<close> as the only argument the query string is
  \<^verbatim>\<open>limit=0\<close>, with no argument there is none.
\<close>

theorem limit_zero_counterexample:
  "map url (fst (CallTool_handler ''key'' (example_world not_found) ''list_assets''
                   (Some [''limit'' \<mapsto> Num 0]))) =
     [''https://api.heygen.com/v1/asset/list?limit=0''] \<and>
   map url (fst (CallTool_handler ''key'' (example_world not_found) ''list_assets''
                   (Some Map.empty))) =
     [''https://api.heygen.com/v1/asset/list''] \<and>
   map url (fst (CallTool_handler ''key'' (example_world not_found) ''list_folders''
                   (Some [''limit'' \<mapsto> Num 0]))) =
     [''https://api.heygen.com/v1/folders?limit=0''] \<and>
   map url (fst (CallTool_handler ''key'' (example_world not_found) ''list_folders''
                   (Some Map.empty))) =
     [''https://api.heygen.com/v1/folders'']"
  by code_simp

subsection \<open>The constraints of the schemas\<close>








subsection \<open>Registry and dispatcher\<close>



subsection \<open>The credential\<close>

lemma run_case_key:
  "r \<in> set (fst (run_case l k w args)) \<Longrightarrow> headers r ''X-Api-Key'' = Some (Str k)"
  by (cases l)
     (auto simp: case_defs request_then_return_makeRequest request_options_key Let_def
        split: option.splits sum.splits)

lemma handler_key:
  "r \<in> set (fst (CallTool_handler k w n args)) \<Longrightarrow> headers r ''X-Api-Key'' = Some (Str k)"
  by (cases "switch_label n") (auto simp: handler_sent try_block_def dest: run_case_key)

lemma serve_key:
  "r \<in> set (fst (serve k w calls)) \<Longrightarrow> headers r ''X-Api-Key'' = Some (Str k)"
  by (induction calls) (auto simp: Let_def dest: handler_key)

text \<open>
  Claim C8, as amended. When \<^verbatim>\<open>HEYGEN_API_KEY\<close> is absent or empty the process writes
  \<^verbatim>\<open>Error: HEYGEN_API_KEY environment variable is required\<close> to the diagnostic stream and
  exits with status 1, and a process that has exited at the guard handles no invocation.
  When it is a non-empty string and the transport connects, the process serves, and every
  request made while serving any sequence of invocations carries that string as
  \<^verbatim>\<open>X-Api-Key\<close>.
\<close>

theorem credential_at_startup:
  "start None connect =
     Exited [[LStr ''Error: HEYGEN_API_KEY environment variable is required'']] 1 \<and>
   start (Some []) connect =
     Exited [[LStr ''Error: HEYGEN_API_KEY environment variable is required'']] 1 \<and>
   (start HEYGEN_API_KEY connect =
      Exited [[LStr ''Error: HEYGEN_API_KEY environment variable is required'']] 1 \<longrightarrow>
    run HEYGEN_API_KEY connect w calls =
      (Exited [[LStr ''Error: HEYGEN_API_KEY environment variable is required'']] 1, [], [])) \<and>
   (key \<noteq> [] \<longrightarrow>
      start (Some key) None = Serving [[LStr ''HeyGen MCP Server running on stdio'']] key \<and>
      run (Some key) None w calls =
        (Serving [[LStr ''HeyGen MCP Server running on stdio'']] key, serve key w calls) \<and>
      (\<forall>r \<in> set (fst (serve key w calls)). headers r ''X-Api-Key'' = Some (Str key)))"
  by (auto simp: start_def run_def env_value_def dest: serve_key)

theorem credential_at_startup_witness:
  "start None None =
     Exited [[LStr ''Error: HEYGEN_API_KEY environment variable is required'']] 1 \<and>
   run None None (example_world not_found) [(''list_assets'', Some Map.empty)] =
     (Exited [[LStr ''Error: HEYGEN_API_KEY environment variable is required'']] 1, [], []) \<and>
   ''sk_V2_abc'' \<noteq> [] \<and>
   start (Some ''sk_V2_abc'') None =
     Serving [[LStr ''HeyGen MCP Server running on stdio'']] ''sk_V2_abc'' \<and>
   map (\<lambda>r. (url r, headers r ''X-Api-Key''))
     (fst (serve ''sk_V2_abc'' (example_world not_found)
        [(''list_assets'', Some Map.empty), (''make_video'', None),
         (''trash_folder'', Some [''folder_id'' \<mapsto> Str ''f1''])])) =
     [(''https://api.heygen.com/v1/asset/list'', Some (Str ''sk_V2_abc'')),
      (''https://api.heygen.com/v1/folders/f1/trash'', Some (Str ''sk_V2_abc''))]"
  using credential_at_startup
          [of None None "example_world not_found" "[(''list_assets'', Some Map.empty)]"
              "''sk_V2_abc''"]
        credential_at_startup
          [of None None "example_world not_found"
              "[(''list_assets'', Some Map.empty), (''make_video'', None),
                (''trash_folder'', Some [''folder_id'' \<mapsto> Str ''f1''])]"
              "''sk_V2_abc''"]
  by (simp add: handler_sent try_block_def switch_label_def case_list_assets_def
        case_trash_folder_def list_assets_params_def property_def with_query_def
        URLSearchParams_toString_def request_then_return_makeRequest request_options_def
        request_headers_def API_BASE_URL_def Let_def)

text \<open>
  Claim C8, as stated, fails when the variable is present and empty: the process exits
  with status 1 and handles nothing.
\<close>

theorem empty_credential_counterexample:
  "run (Some []) None (example_world not_found) [(''list_assets'', Some Map.empty)] =
     (Exited [[LStr ''Error: HEYGEN_API_KEY environment variable is required'']] 1, [], [])"
  by (simp add: run_def start_def env_value_def)

end
